theory Spec2Isabelle
  imports Main
begin

section \<open>Python values, exceptions and the file system\<close>

text \<open>
  The module \<^verbatim>\<open>analysis/mafft.py\<close> defines one class, \<^verbatim>\<open>MafftCline\<close>, a subclass of
  \<^verbatim>\<open>clineapp.ClineApp\<close>. A raised exception is a value of type \<open>error\<close>; an
  \<^verbatim>\<open>assert\<close> without a message raises \<open>AssertionError None\<close>, one with a message
  \<open>AssertionError (Some msg)\<close>.
\<close>

datatype error =
    AssertionError "string option"
  | AttributeError string
  | NameError string
  | IOError string
  | ValueError string

text \<open>A sequence record: an identifier and a residue string.\<close>

record seq_record =
  rec_id :: string
  rec_seq :: string

text \<open>The elements a caller may put into the collection handed to \<^verbatim>\<open>run\<close>.\<close>

datatype pyobj = SeqRecord seq_record | PyStr string | PyNone

fun isinstance_SeqRecord :: "pyobj \<Rightarrow> bool" where
  "isinstance_SeqRecord (SeqRecord r) = True"
| "isinstance_SeqRecord (PyStr v) = False"
| "isinstance_SeqRecord PyNone = False"

definition INSEQ_FILENAME :: string where
  "INSEQ_FILENAME = ''inseq.fasta''"

definition OUTALIGN_FILENAME :: string where
  "OUTALIGN_FILENAME = ''outalign.fasta''"

text \<open>
  The file system and the process table: regular files with their contents, directories,
  and the command lines handed to the shell so far.
\<close>

record world =
  files :: "string \<rightharpoonup> string"
  dirs :: "string set"
  invoked :: "string list"

text \<open>\<^verbatim>\<open>os.path.join (a, b)\<close> of \<^verbatim>\<open>posixpath\<close>, for two components.\<close>

definition startswith_slash :: "string \<Rightarrow> bool" where
  "startswith_slash b = (case b of [] \<Rightarrow> False | c # cs \<Rightarrow> c = CHR ''/'')"

definition endswith_slash :: "string \<Rightarrow> bool" where
  "endswith_slash a = (case rev a of [] \<Rightarrow> False | c # cs \<Rightarrow> c = CHR ''/'')"

definition os_path_join :: "string \<Rightarrow> string \<Rightarrow> string" where
  "os_path_join a b =
     (if startswith_slash b then b
      else if a = [] then a @ b
      else if endswith_slash a then a @ b
      else a @ ''/'' @ b)"

definition os_path_exists :: "world \<Rightarrow> string \<Rightarrow> bool" where
  "os_path_exists w p = (case files w p of Some txt \<Rightarrow> True | None \<Rightarrow> p \<in> dirs w)"

text \<open>
  \<^verbatim>\<open>open (path, 'rU')\<close> followed by reading: universal newlines turn \<open>CR LF\<close> and a lone
  \<open>CR\<close> into \<open>LF\<close>. Opening a path that is no regular file raises \<open>IOError\<close>.
\<close>

fun universal_newlines :: "string \<Rightarrow> string" where
  "universal_newlines [] = []"
| "universal_newlines [c] = (if c = CHR 0x0D then [CHR 0x0A] else [c])"
| "universal_newlines (c # d # rest) =
     (if c = CHR 0x0D then
        (if d = CHR 0x0A then CHR 0x0A # universal_newlines rest
         else CHR 0x0A # universal_newlines (d # rest))
      else c # universal_newlines (d # rest))"

definition open_rU :: "world \<Rightarrow> string \<Rightarrow> error + string" where
  "open_rU w p = (case files w p of None \<Rightarrow> Inl (IOError p) | Some txt \<Rightarrow> Inr (universal_newlines txt))"

section \<open>The runner object and what it is given\<close>

text \<open>
  The attributes of a \<^verbatim>\<open>MafftCline\<close> instance. An attribute that has not been assigned
  yet is \<open>None\<close>.
\<close>

record cline_app =
  exepath :: string
  use_workdir :: bool
  remove_workdir :: bool
  check_requirements :: bool
  curr_workdir :: "string option"
  curr_cline :: "string option"
  curr_status :: "int option"
  inseqs :: "pyobj list option"
  inseq_path :: "string option"

type_synonym state = "cline_app \<times> world"

text \<open>
  What the module calls but does not define: the temporary-directory chooser, the writer
  \<^verbatim>\<open>SeqIO.write (_, _, 'fasta')\<close> of the sequence library (the text it writes, and the
  exception it raises, if any), the reader \<^verbatim>\<open>AlignIO.read (_, 'fasta')\<close> of the same library,
  the external tool run by the shell (command line, working directory), and the function
  that \<^verbatim>\<open>utils.file_to_string\<close> would denote. They are parameters of the model.
\<close>

record env =
  mkdtemp :: "world \<Rightarrow> string"
  seqio_write :: "seq_record list \<Rightarrow> string \<times> error option"
  alignio_read :: "string \<Rightarrow> error + seq_record list"
  exec_tool :: "string \<Rightarrow> string \<Rightarrow> world \<Rightarrow> world \<times> int"
  file_to_string :: "string \<Rightarrow> world \<Rightarrow> error + string"

section \<open>The base class\<close>

text \<open>
  Modelled from the spec: the constructor of \<^verbatim>\<open>clineapp.ClineApp\<close>, which is not in the
  sources. It keeps the tool path and the three options; the run context holds no working
  directory and no command line before a run.
\<close>

definition ClineApp_init :: "string \<Rightarrow> bool \<Rightarrow> bool \<Rightarrow> bool \<Rightarrow> cline_app" where
  "ClineApp_init path use_wd remove_wd check_req =
     \<lparr>exepath = path, use_workdir = use_wd, remove_workdir = remove_wd,
      check_requirements = check_req, curr_workdir = None, curr_cline = None,
      curr_status = None, inseqs = None, inseq_path = None\<rparr>"

text \<open>
  Modelled from the spec: \<^verbatim>\<open>ClineApp.setup_workdir\<close>, which is not in the sources. It
  creates (or reuses) a scratch working directory and records it in the run context.
\<close>

definition ClineApp_setup_workdir :: "env \<Rightarrow> state \<Rightarrow> state" where
  "ClineApp_setup_workdir e s =
     (case s of (self, w) \<Rightarrow>
        (self\<lparr>curr_workdir := Some (mkdtemp e w)\<rparr>,
         w\<lparr>dirs := insert (mkdtemp e w) (dirs w)\<rparr>))"

text \<open>
  Modelled from the spec: \<^verbatim>\<open>scratchfile.make_scratch_file\<close>, which is not in the sources.
  It names a file of the given fixed name under the given directory.
\<close>

definition make_scratch_file :: "string \<Rightarrow> string \<Rightarrow> string" where
  "make_scratch_file name dir = os_path_join dir name"

text \<open>
  Modelled from the spec: \<^verbatim>\<open>ClineApp._build_cmdline\<close>, which is not in the sources. The
  base command line is the tool path followed by the arguments, separated by single spaces.
\<close>

fun join_space :: "string list \<Rightarrow> string" where
  "join_space [] = []"
| "join_space [a] = a"
| "join_space (a # b # rest) = a @ '' '' @ join_space (b # rest)"

definition ClineApp_build_cmdline :: "cline_app \<Rightarrow> string list \<Rightarrow> string" where
  "ClineApp_build_cmdline self clargs = join_space (exepath self # clargs)"

section \<open>\<^verbatim>\<open>MafftCline\<close>\<close>

text \<open>\<^verbatim>\<open>__init__ (self, exepath='/usr/bin/mafft')\<close>.\<close>

definition MafftCline_init :: "string \<Rightarrow> cline_app" where
  "MafftCline_init path = ClineApp_init path True False False"

definition MafftCline_default :: cline_app where
  "MafftCline_default = MafftCline_init ''/usr/bin/mafft''"

text \<open>\<^verbatim>\<open>_build_cmdline (self, *clargs)\<close>.\<close>

definition build_cmdline :: "cline_app \<Rightarrow> string list \<Rightarrow> string" where
  "build_cmdline self clargs =
     (let clargs1 = clargs @ [INSEQ_FILENAME];
          cmdline = ClineApp_build_cmdline self clargs1
      in cmdline @ '' > '' @ OUTALIGN_FILENAME)"

text \<open>
  The loop of \<^verbatim>\<open>setup_workdir\<close>: every element is checked and appended to the list
  \<^verbatim>\<open>inseqs\<close>; the first element that is no \<^verbatim>\<open>SeqRecord\<close> fails the assertion.
\<close>

fun collect_inseqs :: "pyobj list \<Rightarrow> seq_record list \<Rightarrow> error + seq_record list" where
  "collect_inseqs [] acc = Inr acc"
| "collect_inseqs (SeqRecord r # rest) acc = collect_inseqs rest (acc @ [r])"
| "collect_inseqs (PyStr v # rest) acc = Inl (AssertionError None)"
| "collect_inseqs (PyNone # rest) acc = Inl (AssertionError None)"

text \<open>
  \<^verbatim>\<open>setup_workdir (self)\<close>: the base class prepares the directory, the input file is named,
  the elements are checked, and only then the file is opened for writing and filled.
\<close>

definition setup_workdir :: "env \<Rightarrow> state \<Rightarrow> (error + unit) \<times> state" where
  "setup_workdir e s =
     (case ClineApp_setup_workdir e s of (self1, w1) \<Rightarrow>
        (case curr_workdir self1 of
           None \<Rightarrow> (Inl (AttributeError ''endswith''), (self1, w1))
         | Some wd \<Rightarrow>
             (let p = make_scratch_file ''inseq.fasta'' wd;
                  self2 = self1\<lparr>inseq_path := Some p\<rparr>
              in (case inseqs self2 of
                    None \<Rightarrow> (Inl (AttributeError ''_inseqs''), (self2, w1))
                  | Some bioseqs \<Rightarrow>
                      (case collect_inseqs bioseqs [] of
                         Inl err \<Rightarrow> (Inl err, (self2, w1))
                       | Inr recs \<Rightarrow>
                           (case seqio_write e recs of (txt, raised) \<Rightarrow>
                              (case raised of
                                 None \<Rightarrow> (Inr (), (self2, w1\<lparr>files := (files w1)(p \<mapsto> txt)\<rparr>))
                               | Some err \<Rightarrow>
                                   (Inl err, (self2, w1\<lparr>files := (files w1)(p \<mapsto> txt)\<rparr>)))))))))"

text \<open>
  Modelled from the spec: the end of a run in \<^verbatim>\<open>clineapp.ClineApp\<close>, which is not in the
  sources. The working directory is destroyed, with the files under it, or kept for
  inspection, depending on the configuration.
\<close>

definition is_under :: "string \<Rightarrow> string \<Rightarrow> bool" where
  "is_under dir p = (take (length (os_path_join dir [])) p = os_path_join dir [])"

definition cleanup_workdir :: "cline_app \<Rightarrow> string \<Rightarrow> world \<Rightarrow> world" where
  "cleanup_workdir self wd w =
     (if remove_workdir self
      then w\<lparr>files := (\<lambda>p. if is_under wd p then None else files w p),
             dirs := dirs w - {wd}\<rparr>
      else w)"

text \<open>
  Modelled from the spec: \<^verbatim>\<open>ClineApp.call_cmdline\<close>, which is not in the sources. It
  sets up the working directory, builds the command line and keeps it, runs the external
  program synchronously in the working directory, keeps its exit status without raising on
  it, and then applies the retention policy.
\<close>

definition call_cmdline :: "env \<Rightarrow> string list \<Rightarrow> state \<Rightarrow> (error + unit) \<times> state" where
  "call_cmdline e clargs s =
     (case setup_workdir e s of
        (Inl err, s1) \<Rightarrow> (Inl err, s1)
      | (Inr u, (self1, w1)) \<Rightarrow>
          (case curr_workdir self1 of
             None \<Rightarrow> (Inl (AttributeError ''endswith''), (self1, w1))
           | Some wd \<Rightarrow>
               (let cmdline = build_cmdline self1 clargs;
                    self2 = self1\<lparr>curr_cline := Some cmdline\<rparr>
                in (case exec_tool e cmdline wd (w1\<lparr>invoked := invoked w1 @ [cmdline]\<rparr>) of
                      (w2, status) \<Rightarrow>
                        (Inr (), (self2\<lparr>curr_status := Some status\<rparr>,
                                  cleanup_workdir self2 wd w2))))))"

text \<open>\<^verbatim>\<open>run (self, bioseqs, *clargs)\<close>.\<close>

definition run :: "env \<Rightarrow> pyobj list \<Rightarrow> string list \<Rightarrow> state \<Rightarrow> (error + unit) \<times> state" where
  "run e bioseqs clargs s =
     (if 2 \<le> length bioseqs
      then call_cmdline e clargs (fst s\<lparr>inseqs := Some bioseqs\<rparr>, snd s)
      else (Inl (AssertionError None), s))"

text \<open>\<^verbatim>\<open>run_fftns (self, bioseqs)\<close>.\<close>

definition run_fftns :: "env \<Rightarrow> pyobj list \<Rightarrow> state \<Rightarrow> (error + unit) \<times> state" where
  "run_fftns e bioseqs s = run e bioseqs [''--retree 2'', ''--maxiterate 0''] s"

text \<open>The truth value of \<^verbatim>\<open>self._curr_cline\<close>: \<^verbatim>\<open>None\<close> and the empty string are false.\<close>

definition truthy :: "string option \<Rightarrow> bool" where
  "truthy v = (case v of None \<Rightarrow> False | Some c \<Rightarrow> c \<noteq> [])"

text \<open>The first definition of \<^verbatim>\<open>extract_results\<close> in the class body (lines 64 to 86).\<close>

definition extract_results_first :: "env \<Rightarrow> state \<Rightarrow> error + seq_record list" where
  "extract_results_first e s =
     (if \<not> truthy (curr_cline (fst s)) then Inl (AssertionError None)
      else (case curr_workdir (fst s) of
              None \<Rightarrow> Inl (AttributeError ''endswith'')
            | Some wd \<Rightarrow>
                (let output_path = os_path_join wd OUTALIGN_FILENAME
                 in if \<not> os_path_exists (snd s) output_path
                    then Inl (AssertionError (Some (''can't find outfile '' @ output_path)))
                    else (case open_rU (snd s) output_path of
                            Inl err \<Rightarrow> Inl err
                          | Inr output_hndl \<Rightarrow>
                              (let align = alignio_read e output_hndl in align)))))"

text \<open>
  The second definition (lines 138 to 156), the one the class keeps: a later \<^verbatim>\<open>def\<close>
  of the same name replaces the earlier one.
\<close>

definition extract_results :: "env \<Rightarrow> state \<Rightarrow> error + seq_record list" where
  "extract_results e s =
     (if \<not> truthy (curr_cline (fst s)) then Inl (AssertionError None)
      else (case curr_workdir (fst s) of
              None \<Rightarrow> Inl (AttributeError ''endswith'')
            | Some wd \<Rightarrow>
                (let output_path = os_path_join wd OUTALIGN_FILENAME
                 in if \<not> os_path_exists (snd s) output_path
                    then Inl (AssertionError (Some (''can't find outfile '' @ output_path)))
                    else (case open_rU (snd s) output_path of
                            Inl err \<Rightarrow> Inl err
                          | Inr aln_hndl \<Rightarrow>
                              (let aln = alignio_read e aln_hndl in aln)))))"

text \<open>
  The names bound in the module's global namespace: its imports, constants, class and
  function. The import of \<^verbatim>\<open>relais.dev.common\<close> is commented out. A global name that is
  not bound (and is no builtin) raises \<open>NameError\<close> when it is evaluated.
\<close>

definition module_globals :: "string list" where
  "module_globals =
     [''__docformat__'', ''os'', ''SeqRecord'', ''SeqIO'', ''AlignIO'', ''clineapp'',
      ''scratchfile'', ''INSEQ_FILENAME'', ''OUTALIGN_FILENAME'', ''MafftCline'',
      ''_doctest'']"

definition global_lookup :: "string \<Rightarrow> error + unit" where
  "global_lookup n = (if n \<in> set module_globals then Inr () else Inl (NameError n))"

text \<open>
  \<^verbatim>\<open>extract_diagnostics (self)\<close>: for each of the two file names, the path is joined, then
  \<^verbatim>\<open>utils.file_to_string (fpath)\<close> is evaluated and stored under the name. Nothing
  catches an exception.
\<close>

fun diagnostics_loop ::
  "env \<Rightarrow> state \<Rightarrow> string list \<Rightarrow> (string \<rightharpoonup> string) \<Rightarrow> error + (string \<rightharpoonup> string)" where
  "diagnostics_loop e s [] diag = Inr diag"
| "diagnostics_loop e s (item # rest) diag =
     (case curr_workdir (fst s) of
        None \<Rightarrow> Inl (AttributeError ''endswith'')
      | Some wd \<Rightarrow>
          (let fpath = os_path_join wd item
           in (case global_lookup ''utils'' of
                 Inl err \<Rightarrow> Inl err
               | Inr u \<Rightarrow>
                   (case file_to_string e fpath (snd s) of
                      Inl err \<Rightarrow> Inl err
                    | Inr txt \<Rightarrow> diagnostics_loop e s rest (diag(item \<mapsto> txt))))))"

definition extract_diagnostics :: "env \<Rightarrow> state \<Rightarrow> error + (string \<rightharpoonup> string)" where
  "extract_diagnostics e s =
     diagnostics_loop e s [INSEQ_FILENAME, OUTALIGN_FILENAME] Map.empty"

section \<open>Stand-ins for the sequence library and the external tool\<close>

text \<open>
  A FASTA writer and reader to put in the place of the sequence library: a header line
  \<open>>\<close> with the identifier, then the residues in lines of at most 60 columns; on reading,
  the identifier is the first word of the header, the residue lines of a record are joined,
  a file without records is refused, and so is an alignment whose rows differ in length.
\<close>

fun wrap_lines :: "nat \<Rightarrow> nat \<Rightarrow> string \<Rightarrow> string" where
  "wrap_lines width col [] = (if col = 0 then [] else [CHR 0x0A])"
| "wrap_lines width col (c # cs) =
     (if col = width then CHR 0x0A # c # wrap_lines width 1 cs
      else c # wrap_lines width (Suc col) cs)"

definition fasta_write :: "seq_record list \<Rightarrow> string \<times> error option" where
  "fasta_write recs =
     (concat (map (\<lambda>r. ''>'' @ rec_id r @ [CHR 0x0A] @ wrap_lines 60 0 (rec_seq r)) recs),
      None)"

fun split_lines :: "string \<Rightarrow> string \<Rightarrow> string list" where
  "split_lines [] cur = (if cur = [] then [] else [cur])"
| "split_lines (c # cs) cur =
     (if c = CHR 0x0A then cur # split_lines cs [] else split_lines cs (cur @ [c]))"

definition first_word :: "string \<Rightarrow> string" where
  "first_word t = takeWhile (\<lambda>c. c \<noteq> CHR '' '') (dropWhile (\<lambda>c. c = CHR '' '') t)"

fun fasta_records :: "string list \<Rightarrow> seq_record list \<Rightarrow> seq_record list" where
  "fasta_records [] acc = rev acc"
| "fasta_records ([] # ls) acc = fasta_records ls acc"
| "fasta_records ((c # l) # ls) acc =
     (if c = CHR ''>''
      then fasta_records ls (\<lparr>rec_id = first_word l, rec_seq = []\<rparr> # acc)
      else (case acc of
              [] \<Rightarrow> fasta_records ls []
            | r # rs \<Rightarrow> fasta_records ls (r\<lparr>rec_seq := rec_seq r @ c # l\<rparr> # rs)))"

definition fasta_read :: "string \<Rightarrow> error + seq_record list" where
  "fasta_read txt =
     (case fasta_records (split_lines txt []) [] of
        [] \<Rightarrow> Inl (ValueError ''No records found in handle'')
      | r # rs \<Rightarrow>
          if list_all (\<lambda>x. length (rec_seq x) = length (rec_seq r)) rs
          then Inr (r # rs)
          else Inl (ValueError ''Sequences must all be the same length''))"

text \<open>
  The stub tool of the round-trip property: it copies the input file of the working
  directory verbatim to the output file name and exits with status 0.
\<close>

definition copy_stub :: "string \<Rightarrow> string \<Rightarrow> world \<Rightarrow> world \<times> int" where
  "copy_stub cmdline wd w =
     (w\<lparr>files := (files w)(os_path_join wd OUTALIGN_FILENAME :=
                               files w (os_path_join wd INSEQ_FILENAME))\<rparr>, 0)"

text \<open>A tool that fails without leaving any output file.\<close>

definition silent_tool :: "string \<Rightarrow> string \<Rightarrow> world \<Rightarrow> world \<times> int" where
  "silent_tool cmdline wd w = (w, 1)"

text \<open>A plain file reader, for the place of \<^verbatim>\<open>utils.file_to_string\<close>.\<close>

definition read_text :: "string \<Rightarrow> world \<Rightarrow> error + string" where
  "read_text p w = (case files w p of None \<Rightarrow> Inl (IOError p) | Some txt \<Rightarrow> Inr txt)"

definition stub_env :: env where
  "stub_env =
     \<lparr>mkdtemp = (\<lambda>w. ''/tmp/wd''), seqio_write = fasta_write, alignio_read = fasta_read,
      exec_tool = copy_stub, file_to_string = read_text\<rparr>"

definition silent_env :: env where
  "silent_env = stub_env\<lparr>exec_tool := silent_tool\<rparr>"

definition empty_world :: world where
  "empty_world = \<lparr>files = Map.empty, dirs = {}, invoked = []\<rparr>"

definition seqA :: seq_record where
  "seqA = \<lparr>rec_id = ''A'', rec_seq = ''ACGT''\<rparr>"

definition seqB :: seq_record where
  "seqB = \<lparr>rec_id = ''B'', rec_seq = ''AC-T''\<rparr>"

definition seqC :: seq_record where
  "seqC = \<lparr>rec_id = ''C'', rec_seq = ''AC''\<rparr>"

section \<open>Facts about the helpers\<close>

lemmas eval_defs = run_def call_cmdline_def setup_workdir_def ClineApp_setup_workdir_def
  make_scratch_file_def os_path_join_def startswith_slash_def endswith_slash_def
  build_cmdline_def ClineApp_build_cmdline_def cleanup_workdir_def
  MafftCline_default_def MafftCline_init_def ClineApp_init_def
  stub_env_def empty_world_def copy_stub_def
  fasta_write_def fasta_read_def first_word_def seqA_def seqB_def
  INSEQ_FILENAME_def OUTALIGN_FILENAME_def
  truthy_def os_path_exists_def open_rU_def Let_def

lemma collect_inseqs_records: "collect_inseqs (map SeqRecord recs) acc = Inr (acc @ recs)"
  by (induction recs arbitrary: acc) simp_all

lemma collect_inseqs_rejects:
  "\<not> list_all isinstance_SeqRecord bioseqs \<Longrightarrow>
     collect_inseqs bioseqs acc = Inl (AssertionError None)"
  by (induction bioseqs acc rule: collect_inseqs.induct) simp_all

lemma all_records_map:
  "list_all isinstance_SeqRecord bioseqs \<Longrightarrow> \<exists>recs. bioseqs = map SeqRecord recs"
proof (induction bioseqs)
  case Nil
  then show ?case by simp
next
  case (Cons x xs)
  then obtain recs where xs: "xs = map SeqRecord recs" by auto
  from Cons.prems obtain r where "x = SeqRecord r" by (cases x) simp_all
  with xs have "x # xs = map SeqRecord (r # recs)" by simp
  then show ?case by (rule exI)
qed

lemma build_cmdline_nonempty: "build_cmdline self clargs \<noteq> []"
  by (simp add: build_cmdline_def OUTALIGN_FILENAME_def)

lemma setup_workdir_success:
  assumes "setup_workdir e (self, w) = (Inr u, (self1, w1))"
  shows "self1 = self\<lparr>curr_workdir := Some (mkdtemp e w),
                      inseq_path := Some (make_scratch_file ''inseq.fasta'' (mkdtemp e w))\<rparr>"
    and "dirs w1 = insert (mkdtemp e w) (dirs w)"
    and "invoked w1 = invoked w"
  using assms
  by (auto simp: setup_workdir_def ClineApp_setup_workdir_def Let_def
      split: option.splits sum.splits prod.splits)

lemma in_out_paths_differ:
  "os_path_join wd INSEQ_FILENAME \<noteq> os_path_join wd OUTALIGN_FILENAME"
  by (simp add: os_path_join_def startswith_slash_def INSEQ_FILENAME_def OUTALIGN_FILENAME_def)

section \<open>Command-line construction\<close>

lemma join_space_Cons: "join_space (x # xs) = x @ concat (map (\<lambda>a. '' '' @ a) xs)"
  by (induction xs arbitrary: x) simp_all

text \<open>
  Claim C3. For every list of caller-supplied arguments the command line is the tool path,
  then each caller argument in the order supplied, then \<^verbatim>\<open>inseq.fasta\<close>, then the
  redirection to \<^verbatim>\<open>outalign.fasta\<close>, all separated by single spaces; so it always ends
  with the input file name followed by the redirection.
\<close>

theorem build_cmdline_form:
  "build_cmdline self clargs =
     exepath self @ concat (map (\<lambda>a. '' '' @ a) clargs) @ '' inseq.fasta > outalign.fasta''
   \<and> (\<exists>pre. build_cmdline self clargs = pre @ ''inseq.fasta > outalign.fasta'')"
proof -
  have form: "build_cmdline self clargs =
      exepath self @ concat (map (\<lambda>a. '' '' @ a) clargs) @ '' inseq.fasta > outalign.fasta''"
    by (simp add: build_cmdline_def ClineApp_build_cmdline_def join_space_Cons
        INSEQ_FILENAME_def OUTALIGN_FILENAME_def)
  have "build_cmdline self clargs =
      (exepath self @ concat (map (\<lambda>a. '' '' @ a) clargs) @ '' '') @ ''inseq.fasta > outalign.fasta''"
    by (simp add: form)
  then show ?thesis using form by blast
qed

section \<open>The precondition of \<^verbatim>\<open>run\<close>\<close>

text \<open>
  Claim C2. For every collection with fewer than two elements \<^verbatim>\<open>run\<close> fails at once
  with the assertion failure of its precondition (the spec's PreconditionError): the runner
  and the world are left as they were, so no process has been invoked. For a collection of
  two or more elements the check passes: \<^verbatim>\<open>run\<close> stores the collection and goes on
  to \<^verbatim>\<open>call_cmdline\<close>.
\<close>

theorem run_precondition:
  "(length bioseqs < 2 \<longrightarrow>
      run e bioseqs clargs s = (Inl (AssertionError None), s)
      \<and> invoked (snd (snd (run e bioseqs clargs s))) = invoked (snd s))
   \<and> (2 \<le> length bioseqs \<longrightarrow>
        run e bioseqs clargs s =
          call_cmdline e clargs (fst s\<lparr>inseqs := Some bioseqs\<rparr>, snd s))"
  by (simp add: run_def)

theorem run_precondition_witness:
  "run stub_env [] [] (MafftCline_default, empty_world)
     = (Inl (AssertionError None), (MafftCline_default, empty_world))
   \<and> run stub_env [SeqRecord seqA] [''--auto''] (MafftCline_default, empty_world)
     = (Inl (AssertionError None), (MafftCline_default, empty_world))
   \<and> fst (run stub_env [SeqRecord seqA, SeqRecord seqB] []
            (MafftCline_default, empty_world)) = Inr ()"
proof -
  have a: "length ([] :: pyobj list) < 2" by simp
  have b: "length [SeqRecord seqA] < 2" by simp
  have c: "2 \<le> length [SeqRecord seqA, SeqRecord seqB]" by simp
  have "fst (call_cmdline stub_env []
          (fst (MafftCline_default, empty_world)
             \<lparr>inseqs := Some [SeqRecord seqA, SeqRecord seqB]\<rparr>,
           snd (MafftCline_default, empty_world))) = Inr ()"
    by (simp add: eval_defs)
  then show ?thesis
    using run_precondition [of "[]" stub_env "[]" "(MafftCline_default, empty_world)"]
      run_precondition [of "[SeqRecord seqA]" stub_env "[''--auto'']"
        "(MafftCline_default, empty_world)"]
      run_precondition [of "[SeqRecord seqA, SeqRecord seqB]" stub_env "[]"
        "(MafftCline_default, empty_world)"]
      a b c
    by simp
qed

section \<open>Extracting the results\<close>

text \<open>
  Claim C4. Before any run, when no command line has been built (the attribute is
  \<^verbatim>\<open>None\<close>, as the constructor leaves it), \<^verbatim>\<open>extract_results\<close> fails with the
  assertion failure of its first precondition (the spec's StateError), whatever the file
  system holds.
\<close>

theorem extract_results_before_run:
  "extract_results e (self\<lparr>curr_cline := None\<rparr>, w) = Inl (AssertionError None)
   \<and> extract_results e (MafftCline_init path, w) = Inl (AssertionError None)"
  by (simp add: extract_results_def truthy_def MafftCline_init_def ClineApp_init_def)

text \<open>
  Claim C5. After a run (a command line has been built and the working directory is known),
  if \<^verbatim>\<open>outalign.fasta\<close> does not exist in the working directory, \<^verbatim>\<open>extract_results\<close>
  fails with the assertion failure whose message names the missing path (the spec's
  NotFoundError); the result is the error, so no alignment is produced and the reader of
  the sequence library is not consulted.
\<close>

theorem extract_results_missing_output:
  assumes "truthy (curr_cline self)"
    and "curr_workdir self = Some wd"
    and "\<not> os_path_exists w (os_path_join wd OUTALIGN_FILENAME)"
  shows "extract_results e (self, w) =
           Inl (AssertionError
                  (Some (''can't find outfile '' @ os_path_join wd OUTALIGN_FILENAME)))"
  using assms by (simp add: extract_results_def)

theorem extract_results_missing_output_witness:
  "fst (run silent_env [SeqRecord seqA, SeqRecord seqB] []
          (MafftCline_default, empty_world)) = Inr ()
   \<and> extract_results silent_env
       (snd (run silent_env [SeqRecord seqA, SeqRecord seqB] []
               (MafftCline_default, empty_world)))
     = Inl (AssertionError (Some ''can't find outfile /tmp/wd/outalign.fasta''))"
proof -
  obtain self' w' where r:
    "run silent_env [SeqRecord seqA, SeqRecord seqB] [] (MafftCline_default, empty_world)
       = (Inr (), (self', w'))"
    and c: "truthy (curr_cline self')"
    and d: "curr_workdir self' = Some ''/tmp/wd''"
    and f: "\<not> os_path_exists w' (os_path_join ''/tmp/wd'' OUTALIGN_FILENAME)"
    by (simp add: eval_defs silent_env_def silent_tool_def)
  show ?thesis
    using extract_results_missing_output [OF c d f, of silent_env] r
    by (simp add: os_path_join_def startswith_slash_def endswith_slash_def
        OUTALIGN_FILENAME_def)
qed

text \<open>
  Claim C9. The two definitions of \<^verbatim>\<open>extract_results\<close> in the class body denote the same
  function: in every state of the runner and of the file system they return the same
  alignment or fail with the same exception.
\<close>

theorem extract_results_definitions_agree:
  "extract_results_first e s = extract_results e s"
  by (simp add: extract_results_first_def extract_results_def)

section \<open>The quick mode\<close>

text \<open>
  Claim C7. \<^verbatim>\<open>run_fftns (bioseqs)\<close> is \<^verbatim>\<open>run\<close> with the two preset arguments
  \<^verbatim>\<open>--retree 2\<close> and \<^verbatim>\<open>--maxiterate 0\<close>: the same result and the same final state of the
  runner and the world (so the same command line kept and invoked), with the same
  precondition check in front.
\<close>

theorem run_fftns_is_run_with_preset:
  "run_fftns e bioseqs s = run e bioseqs [''--retree 2'', ''--maxiterate 0''] s
   \<and> run_fftns e bioseqs s =
       (if 2 \<le> length bioseqs
        then call_cmdline e [''--retree 2'', ''--maxiterate 0'']
               (fst s\<lparr>inseqs := Some bioseqs\<rparr>, snd s)
        else (Inl (AssertionError None), s))"
  by (simp add: run_fftns_def run_def)

text \<open>
  The scenario of the spec: two sequences, the quick mode, the copying stub; the command
  line carries the two preset arguments and the two records come back in order.
\<close>

theorem run_fftns_is_run_with_preset_witness:
  "curr_cline (fst (snd (run_fftns stub_env [SeqRecord seqA, SeqRecord seqB]
       (MafftCline_default, empty_world))))
     = Some ''/usr/bin/mafft --retree 2 --maxiterate 0 inseq.fasta > outalign.fasta''
   \<and> extract_results stub_env
        (snd (run_fftns stub_env [SeqRecord seqA, SeqRecord seqB]
                (MafftCline_default, empty_world)))
      = Inr [seqA, seqB]"
proof -
  have "run_fftns stub_env [SeqRecord seqA, SeqRecord seqB] (MafftCline_default, empty_world)
      = run stub_env [SeqRecord seqA, SeqRecord seqB] [''--retree 2'', ''--maxiterate 0'']
          (MafftCline_default, empty_world)"
    using run_fftns_is_run_with_preset
      [of stub_env "[SeqRecord seqA, SeqRecord seqB]" "(MafftCline_default, empty_world)"]
    by (rule conjunct1)
  then show ?thesis
    by (simp add: eval_defs extract_results_def)
qed

section \<open>The diagnostics\<close>

text \<open>
  Claim C6. \<^verbatim>\<open>extract_diagnostics\<close> is meant to return the contents of the two files
  by name, but the module never binds the name \<^verbatim>\<open>utils\<close>: once a working directory is
  known, the call raises \<open>NameError\<close> at the first file, whether or not the files exist and
  whatever function \<^verbatim>\<open>utils.file_to_string\<close> would be; before that, joining the path
  already fails. No mapping is ever returned.
\<close>

theorem extract_diagnostics_raises:
  "extract_diagnostics e (self\<lparr>curr_workdir := Some wd\<rparr>, w) = Inl (NameError ''utils'')
   \<and> extract_diagnostics e (self\<lparr>curr_workdir := None\<rparr>, w)
       = Inl (AttributeError ''endswith'')
   \<and> extract_diagnostics stub_env
       (snd (run stub_env [SeqRecord seqA, SeqRecord seqB] []
               (MafftCline_default, empty_world)))
       = Inl (NameError ''utils'')"
  by (simp add: extract_diagnostics_def global_lookup_def module_globals_def eval_defs)

section \<open>Preparing the working directory\<close>

text \<open>
  Claim C10. When the collection holds an element that is no \<^verbatim>\<open>SeqRecord\<close>,
  \<^verbatim>\<open>setup_workdir\<close> fails with the assertion failure, and the regular files are exactly
  those from before the call: the check of every element comes before the input file is
  opened, so nothing of the collection has been written. When every element is a
  \<^verbatim>\<open>SeqRecord\<close>, the check passes for each, the list collected is the collection in
  its order, and the input file receives what the writer produces for that list.
\<close>

theorem setup_workdir_checks_before_writing:
  "(\<not> list_all isinstance_SeqRecord bioseqs \<longrightarrow>
      fst (setup_workdir e (self\<lparr>inseqs := Some bioseqs\<rparr>, w)) = Inl (AssertionError None)
      \<and> files (snd (snd (setup_workdir e (self\<lparr>inseqs := Some bioseqs\<rparr>, w)))) = files w)
   \<and> (list_all isinstance_SeqRecord bioseqs \<longrightarrow>
        (\<exists>recs. bioseqs = map SeqRecord recs \<and> collect_inseqs bioseqs [] = Inr recs
           \<and> files (snd (snd (setup_workdir e (self\<lparr>inseqs := Some bioseqs\<rparr>, w))))
                (os_path_join (mkdtemp e w) ''inseq.fasta'') = Some (fst (seqio_write e recs))))"
proof (intro conjI impI)
  assume bad: "\<not> list_all isinstance_SeqRecord bioseqs"
  have c: "collect_inseqs bioseqs [] = Inl (AssertionError None)"
    by (rule collect_inseqs_rejects [OF bad])
  show "fst (setup_workdir e (self\<lparr>inseqs := Some bioseqs\<rparr>, w)) = Inl (AssertionError None)"
    by (simp add: setup_workdir_def ClineApp_setup_workdir_def Let_def c)
  show "files (snd (snd (setup_workdir e (self\<lparr>inseqs := Some bioseqs\<rparr>, w)))) = files w"
    by (simp add: setup_workdir_def ClineApp_setup_workdir_def Let_def c)
next
  assume good: "list_all isinstance_SeqRecord bioseqs"
  then obtain recs where m: "bioseqs = map SeqRecord recs"
    using all_records_map by blast
  have c: "collect_inseqs bioseqs [] = Inr recs"
    by (simp add: m collect_inseqs_records)
  have "files (snd (snd (setup_workdir e (self\<lparr>inseqs := Some bioseqs\<rparr>, w))))
          (os_path_join (mkdtemp e w) ''inseq.fasta'') = Some (fst (seqio_write e recs))"
    by (simp add: setup_workdir_def ClineApp_setup_workdir_def Let_def c make_scratch_file_def
        split: prod.splits option.splits)
  with m c show "\<exists>recs. bioseqs = map SeqRecord recs \<and> collect_inseqs bioseqs [] = Inr recs
           \<and> files (snd (snd (setup_workdir e (self\<lparr>inseqs := Some bioseqs\<rparr>, w))))
                (os_path_join (mkdtemp e w) ''inseq.fasta'') = Some (fst (seqio_write e recs))"
    by blast
qed

theorem setup_workdir_checks_before_writing_witness:
  "fst (setup_workdir stub_env (MafftCline_default\<lparr>inseqs := Some [SeqRecord seqA, PyNone]\<rparr>, empty_world))
     = Inl (AssertionError None)
   \<and> files (snd (snd (setup_workdir stub_env
         (MafftCline_default\<lparr>inseqs := Some [SeqRecord seqA, PyNone]\<rparr>, empty_world)))) = Map.empty
   \<and> collect_inseqs [SeqRecord seqA, SeqRecord seqB] [] = Inr [seqA, seqB]
   \<and> files (snd (snd (setup_workdir stub_env
         (MafftCline_default\<lparr>inseqs := Some [SeqRecord seqA, SeqRecord seqB]\<rparr>, empty_world))))
       ''/tmp/wd/inseq.fasta'' = Some ''>A\<newline>ACGT\<newline>>B\<newline>AC-T\<newline>''"
proof -
  have bad: "\<not> list_all isinstance_SeqRecord [SeqRecord seqA, PyNone]" by simp
  have good: "list_all isinstance_SeqRecord [SeqRecord seqA, SeqRecord seqB]" by simp
  from setup_workdir_checks_before_writing
         [of "[SeqRecord seqA, PyNone]" stub_env MafftCline_default empty_world] bad
  have 1: "fst (setup_workdir stub_env (MafftCline_default\<lparr>inseqs := Some [SeqRecord seqA, PyNone]\<rparr>, empty_world))
     = Inl (AssertionError None)
   \<and> files (snd (snd (setup_workdir stub_env
         (MafftCline_default\<lparr>inseqs := Some [SeqRecord seqA, PyNone]\<rparr>, empty_world)))) = Map.empty"
    by (simp add: empty_world_def)
  have "\<exists>recs. [SeqRecord seqA, SeqRecord seqB] = map SeqRecord recs
      \<and> collect_inseqs [SeqRecord seqA, SeqRecord seqB] [] = Inr recs
      \<and> files (snd (snd (setup_workdir stub_env
           (MafftCline_default\<lparr>inseqs := Some [SeqRecord seqA, SeqRecord seqB]\<rparr>, empty_world))))
         (os_path_join (mkdtemp stub_env empty_world) ''inseq.fasta'')
          = Some (fst (seqio_write stub_env recs))"
    by (rule mp [OF conjunct2 [OF setup_workdir_checks_before_writing
          [of "[SeqRecord seqA, SeqRecord seqB]" stub_env MafftCline_default empty_world]] good])
  then obtain recs where rcf: "[SeqRecord seqA, SeqRecord seqB] = map SeqRecord recs
      \<and> collect_inseqs [SeqRecord seqA, SeqRecord seqB] [] = Inr recs
      \<and> files (snd (snd (setup_workdir stub_env
           (MafftCline_default\<lparr>inseqs := Some [SeqRecord seqA, SeqRecord seqB]\<rparr>, empty_world))))
         (os_path_join (mkdtemp stub_env empty_world) ''inseq.fasta'')
          = Some (fst (seqio_write stub_env recs))" ..
  note c = rcf [THEN conjunct2, THEN conjunct1]
  note f = rcf [THEN conjunct2, THEN conjunct2]
  from c have recs: "recs = [seqA, seqB]" by simp
  from f show ?thesis using 1 c
    by (simp add: recs stub_env_def os_path_join_def startswith_slash_def endswith_slash_def
        fasta_write_def seqA_def seqB_def)
qed

section \<open>The round trip through a copying tool\<close>

text \<open>
  Claim C1, as amended. Take a collection of two or more sequence records, a runner that
  keeps its working directory (as every constructed runner does), and the stub tool that
  copies the input file to the output file name. If the writer of the sequence library
  writes the collection without raising, and its alignment reader parses that text back to
  the same records, then \<^verbatim>\<open>run\<close> succeeds, \<^verbatim>\<open>inseq.fasta\<close> in the working
  directory holds the text written for the records in the order supplied, and
  \<^verbatim>\<open>extract_results\<close> returns exactly the records supplied, in that order.
\<close>

theorem run_then_extract_round_trip:
  assumes len: "2 \<le> length recs"
    and keep: "\<not> remove_workdir self"
    and stub: "exec_tool e = copy_stub"
    and wr: "seqio_write e recs = (txt, None)"
    and rd: "alignio_read e (universal_newlines txt) = Inr recs"
  shows "fst (run e (map SeqRecord recs) clargs (self, w)) = Inr ()
     \<and> files (snd (snd (run e (map SeqRecord recs) clargs (self, w))))
         (os_path_join (mkdtemp e w) INSEQ_FILENAME) = Some txt
     \<and> extract_results e (snd (run e (map SeqRecord recs) clargs (self, w))) = Inr recs"
proof -
  define wd where "wd = mkdtemp e w"
  define self1 where "self1 = self\<lparr>inseqs := Some (map SeqRecord recs), curr_workdir := Some wd,
                     inseq_path := Some (os_path_join wd INSEQ_FILENAME)\<rparr>"
  define w1 where "w1 = w\<lparr>dirs := insert wd (dirs w),
                 files := (files w)(os_path_join wd INSEQ_FILENAME \<mapsto> txt)\<rparr>"
  have sw: "setup_workdir e (self\<lparr>inseqs := Some (map SeqRecord recs)\<rparr>, w) = (Inr (), (self1, w1))"
    by (simp add: setup_workdir_def ClineApp_setup_workdir_def Let_def make_scratch_file_def
        collect_inseqs_records wr INSEQ_FILENAME_def self1_def w1_def wd_def)
  define cl where "cl = build_cmdline self1 clargs"
  define self2 where "self2 = self1\<lparr>curr_cline := Some cl, curr_status := Some 0\<rparr>"
  define w2 where "w2 = w1\<lparr>invoked := invoked w1 @ [cl],
      files := (files w1)(os_path_join wd OUTALIGN_FILENAME := files w1 (os_path_join wd INSEQ_FILENAME))\<rparr>"
  have wd1: "curr_workdir self1 = Some wd" and rm1: "\<not> remove_workdir self1"
    using keep by (simp_all add: self1_def)
  have cc: "call_cmdline e clargs (self\<lparr>inseqs := Some (map SeqRecord recs)\<rparr>, w) = (Inr (), (self2, w2))"
    using rm1
    by (simp add: call_cmdline_def sw wd1 Let_def stub copy_stub_def cleanup_workdir_def
        self2_def w2_def cl_def)
  have r: "run e (map SeqRecord recs) clargs (self, w) = (Inr (), (self2, w2))"
    using len by (simp add: run_def cc)
  have fin: "files w2 (os_path_join wd INSEQ_FILENAME) = Some txt"
    by (simp add: w2_def w1_def in_out_paths_differ)
  have fout: "files w2 (os_path_join wd OUTALIGN_FILENAME) = Some txt"
    by (simp add: w2_def w1_def)
  have tr: "truthy (curr_cline self2)"
    by (simp add: self2_def truthy_def cl_def build_cmdline_nonempty)
  have wd2: "curr_workdir self2 = Some wd"
    by (simp add: self2_def wd1)
  have ex: "extract_results e (self2, w2) = Inr recs"
    by (simp add: extract_results_def tr wd2 Let_def os_path_exists_def open_rU_def fout rd)
  show ?thesis
    using fin by (simp add: r ex wd_def)
qed

theorem run_then_extract_round_trip_witness:
  "fst (run stub_env [SeqRecord seqA, SeqRecord seqB] [] (MafftCline_default, empty_world)) = Inr ()
   \<and> files (snd (snd (run stub_env [SeqRecord seqA, SeqRecord seqB] [] (MafftCline_default, empty_world))))
       ''/tmp/wd/inseq.fasta'' = Some ''>A\<newline>ACGT\<newline>>B\<newline>AC-T\<newline>''
   \<and> extract_results stub_env
        (snd (run stub_env [SeqRecord seqA, SeqRecord seqB] [] (MafftCline_default, empty_world)))
      = Inr [seqA, seqB]"
proof -
  have len: "2 \<le> length [seqA, seqB]" by simp
  have keep: "\<not> remove_workdir MafftCline_default"
    by (simp add: MafftCline_default_def MafftCline_init_def ClineApp_init_def)
  have stub: "exec_tool stub_env = copy_stub" by (simp add: stub_env_def)
  have wr: "seqio_write stub_env [seqA, seqB] = (''>A\<newline>ACGT\<newline>>B\<newline>AC-T\<newline>'', None)"
    by (simp add: stub_env_def fasta_write_def seqA_def seqB_def)
  have rd: "alignio_read stub_env (universal_newlines ''>A\<newline>ACGT\<newline>>B\<newline>AC-T\<newline>'') = Inr [seqA, seqB]"
    by (simp add: stub_env_def fasta_read_def first_word_def seqA_def seqB_def)
  show ?thesis
    using run_then_extract_round_trip [OF len keep stub wr rd, of "[]" empty_world]
    by (simp add: stub_env_def os_path_join_def startswith_slash_def endswith_slash_def INSEQ_FILENAME_def)
qed

text \<open>
  The claim as stated, for every collection of two or more records, does not hold: the
  reader returns an alignment, whose rows are of equal length, and a verbatim copy of
  unaligned input of different lengths is refused when it is parsed.
\<close>

theorem round_trip_unequal_lengths_counterexample:
  "fst (run stub_env [SeqRecord seqA, SeqRecord seqC] [] (MafftCline_default, empty_world)) = Inr ()
   \<and> extract_results stub_env
        (snd (run stub_env [SeqRecord seqA, SeqRecord seqC] [] (MafftCline_default, empty_world)))
      = Inl (ValueError ''Sequences must all be the same length'')"
  by (simp add: eval_defs extract_results_def seqC_def)

section \<open>Retention of the working directory\<close>

text \<open>
  Claim C8, as amended. The constructor of \<^verbatim>\<open>MafftCline\<close> takes the tool path only and
  passes \<^verbatim>\<open>remove_workdir=False\<close> to the base class for every argument: the flag is a
  parameter of the constructor of the base class, fixed by this class. So after every
  successful run of a constructed runner, with a tool that deletes no directory, the
  working directory is recorded in the runner and still exists.
\<close>

theorem workdir_retention_is_fixed:
  assumes tool: "\<And>cl wd w0. dirs w0 \<subseteq> dirs (fst (exec_tool e cl wd w0))"
    and ok: "run e bioseqs clargs (MafftCline_init path, w) = (Inr u, (self', w'))"
  shows "MafftCline_init path = ClineApp_init path True False False
     \<and> remove_workdir (MafftCline_init path) = False
     \<and> remove_workdir self' = False
     \<and> curr_workdir self' = Some (mkdtemp e w)
     \<and> mkdtemp e w \<in> dirs w'"
proof -
  let ?s0 = "(MafftCline_init path\<lparr>inseqs := Some bioseqs\<rparr>, w)"
  have rm: "remove_workdir (MafftCline_init path) = False"
    by (simp add: MafftCline_init_def ClineApp_init_def)
  from ok have cc: "call_cmdline e clargs ?s0 = (Inr u, (self', w'))"
    by (simp add: run_def split: if_splits)
  then obtain self1 w1 where sw: "setup_workdir e ?s0 = (Inr (), (self1, w1))"
    by (auto simp: call_cmdline_def split: prod.splits sum.splits option.splits)
  note s1 = setup_workdir_success [OF sw]
  obtain w2 st where ex: "exec_tool e (build_cmdline self1 clargs) (mkdtemp e w)
       (w1\<lparr>invoked := invoked w1 @ [build_cmdline self1 clargs]\<rparr>) = (w2, st)"
    by (cases "exec_tool e (build_cmdline self1 clargs) (mkdtemp e w)
       (w1\<lparr>invoked := invoked w1 @ [build_cmdline self1 clargs]\<rparr>)") blast
  have wd1: "curr_workdir self1 = Some (mkdtemp e w)" by (simp add: s1(1))
  have rm1: "remove_workdir self1 = False" by (simp add: s1(1) rm)
  from cc sw wd1 ex rm1 have res: "self' = self1\<lparr>curr_cline := Some (build_cmdline self1 clargs), curr_status := Some st\<rparr>"
    and w': "w' = w2"
    by (simp_all add: call_cmdline_def Let_def cleanup_workdir_def)
  have "dirs (w1\<lparr>invoked := invoked w1 @ [build_cmdline self1 clargs]\<rparr>) \<subseteq> dirs w2"
    using tool [of "w1\<lparr>invoked := invoked w1 @ [build_cmdline self1 clargs]\<rparr>"
        "build_cmdline self1 clargs" "mkdtemp e w"] ex by simp
  then have "mkdtemp e w \<in> dirs w2" using s1(2) by auto
  then show ?thesis using rm res wd1 rm1 w'
    by (simp add: MafftCline_init_def)
qed

theorem workdir_retention_is_fixed_witness:
  "remove_workdir (fst (snd (run stub_env [SeqRecord seqA, SeqRecord seqB] []
       (MafftCline_init ''/usr/bin/mafft'', empty_world)))) = False
   \<and> ''/tmp/wd'' \<in> dirs (snd (snd (run stub_env [SeqRecord seqA, SeqRecord seqB] []
       (MafftCline_init ''/usr/bin/mafft'', empty_world))))"
proof -
  have tool: "\<And>cl wd w0. dirs w0 \<subseteq> dirs (fst (exec_tool stub_env cl wd w0))"
    by (simp add: stub_env_def copy_stub_def)
  obtain self' w' where ok: "run stub_env [SeqRecord seqA, SeqRecord seqB] []
       (MafftCline_init ''/usr/bin/mafft'', empty_world) = (Inr (), (self', w'))"
    by (simp add: eval_defs)
  show ?thesis
    using workdir_retention_is_fixed [OF tool ok] ok
    by (simp add: stub_env_def)
qed

text \<open>No argument of the constructor makes the runner delete its working directory.\<close>

theorem workdir_retention_not_configurable_counterexample:
  "\<not> (\<exists>path. remove_workdir (MafftCline_init path))"
  by (simp add: MafftCline_init_def ClineApp_init_def)

end
